theory Spec2Isabelle
  imports
    Complex_Main
    "HOL-Library.Multiset"
    "HOL-Library.Sublist"
    "HOL-Library.Char_ord"
begin

section \<open>JavaScript values and numbers\<close>

text \<open>
  A JavaScript number is a finite value, one of the two infinities, or NaN. Finite values
  are idealised as reals: the rounding and the overflow of IEEE double arithmetic are not
  part of this model, so every result below is about exact arithmetic on finite operands.

  The numeric fields of the upstream JSON hold a JSON number, \<open>null\<close>, or are absent
  (\<open>undefined\<close> when read).
\<close>

datatype jsnum = Fin real | PosInf | NegInf | NaN

datatype jsval = Undefined | Null | Num jsnum

text \<open>\<open>Number(v)\<close>: \<open>undefined\<close> becomes NaN, \<open>null\<close> becomes 0.\<close>

fun Number :: "jsval \<Rightarrow> jsnum" where
  "Number Undefined = NaN"
| "Number Null = Fin 0"
| "Number (Num x) = x"

fun isFinite :: "jsnum \<Rightarrow> bool" where
  "isFinite (Fin r) = True"
| "isFinite PosInf = False"
| "isFinite NegInf = False"
| "isFinite NaN = False"

text \<open>The relational operator \<open>a < b\<close> on numbers: false as soon as one side is NaN.\<close>

fun js_less :: "jsnum \<Rightarrow> jsnum \<Rightarrow> bool" where
  "js_less NaN b = False"
| "js_less a NaN = False"
| "js_less (Fin a) (Fin b) = (a < b)"
| "js_less (Fin a) PosInf = True"
| "js_less (Fin a) NegInf = False"
| "js_less PosInf b = False"
| "js_less NegInf NegInf = False"
| "js_less NegInf b = True"

text \<open>The relational operator \<open>a <= b\<close>.\<close>

fun js_le :: "jsnum \<Rightarrow> jsnum \<Rightarrow> bool" where
  "js_le NaN b = False"
| "js_le a NaN = False"
| "js_le (Fin a) (Fin b) = (a \<le> b)"
| "js_le a PosInf = True"
| "js_le NegInf b = True"
| "js_le PosInf b = False"
| "js_le (Fin a) NegInf = False"

text \<open>
  The arithmetic operators. A NaN operand gives NaN; on finite operands the result is the
  exact one; the sign of zero is not modelled, a zero divisor counting as positive.
\<close>

fun js_add :: "jsnum \<Rightarrow> jsnum \<Rightarrow> jsnum" where
  "js_add NaN b = NaN"
| "js_add a NaN = NaN"
| "js_add (Fin a) (Fin b) = Fin (a + b)"
| "js_add (Fin a) b = b"
| "js_add PosInf NegInf = NaN"
| "js_add PosInf b = PosInf"
| "js_add NegInf PosInf = NaN"
| "js_add NegInf b = NegInf"

fun js_sub :: "jsnum \<Rightarrow> jsnum \<Rightarrow> jsnum" where
  "js_sub NaN b = NaN"
| "js_sub a NaN = NaN"
| "js_sub (Fin a) (Fin b) = Fin (a - b)"
| "js_sub (Fin a) PosInf = NegInf"
| "js_sub (Fin a) NegInf = PosInf"
| "js_sub PosInf PosInf = NaN"
| "js_sub PosInf b = PosInf"
| "js_sub NegInf NegInf = NaN"
| "js_sub NegInf b = NegInf"

fun js_mul :: "jsnum \<Rightarrow> jsnum \<Rightarrow> jsnum" where
  "js_mul NaN b = NaN"
| "js_mul a NaN = NaN"
| "js_mul (Fin a) (Fin b) = Fin (a * b)"
| "js_mul (Fin a) PosInf = (if a = 0 then NaN else if 0 < a then PosInf else NegInf)"
| "js_mul (Fin a) NegInf = (if a = 0 then NaN else if 0 < a then NegInf else PosInf)"
| "js_mul PosInf (Fin b) = (if b = 0 then NaN else if 0 < b then PosInf else NegInf)"
| "js_mul NegInf (Fin b) = (if b = 0 then NaN else if 0 < b then NegInf else PosInf)"
| "js_mul PosInf PosInf = PosInf"
| "js_mul PosInf NegInf = NegInf"
| "js_mul NegInf PosInf = NegInf"
| "js_mul NegInf NegInf = PosInf"

fun js_div :: "jsnum \<Rightarrow> jsnum \<Rightarrow> jsnum" where
  "js_div NaN b = NaN"
| "js_div a NaN = NaN"
| "js_div (Fin a) (Fin b) =
     (if b \<noteq> 0 then Fin (a / b)
      else if a = 0 then NaN else if 0 < a then PosInf else NegInf)"
| "js_div (Fin a) b = Fin 0"
| "js_div PosInf (Fin b) = (if 0 \<le> b then PosInf else NegInf)"
| "js_div NegInf (Fin b) = (if 0 \<le> b then NegInf else PosInf)"
| "js_div a b = NaN"

text \<open>\<open>Math.max(a, b)\<close> and \<open>Math.min(a, b)\<close>: NaN as soon as one argument is NaN.\<close>

fun Math_max :: "jsnum \<Rightarrow> jsnum \<Rightarrow> jsnum" where
  "Math_max NaN b = NaN"
| "Math_max a NaN = NaN"
| "Math_max a b = (if js_less a b then b else a)"

fun Math_min :: "jsnum \<Rightarrow> jsnum \<Rightarrow> jsnum" where
  "Math_min NaN b = NaN"
| "Math_min a NaN = NaN"
| "Math_min a b = (if js_less b a then b else a)"

text \<open>
  \<open>Math.round\<close>: the nearest integer, a tie going up; NaN and the infinities are returned
  as they are.
\<close>

fun Math_round :: "jsnum \<Rightarrow> jsnum" where
  "Math_round (Fin x) = Fin (of_int \<lfloor>x + 1 / 2\<rfloor>)"
| "Math_round a = a"

text \<open>
  \<open>Number(x.toFixed(2))\<close>: two decimals, a tie going away from zero; NaN and the infinities
  print and parse back as themselves.
\<close>

fun toFixed2 :: "jsnum \<Rightarrow> jsnum" where
  "toFixed2 (Fin x) =
     (if x < 0 then Fin (- (of_int \<lfloor>- x * 100 + 1 / 2\<rfloor> / 100))
      else Fin (of_int \<lfloor>x * 100 + 1 / 2\<rfloor> / 100))"
| "toFixed2 a = a"

text \<open>\<open>v ?? d\<close>: the default replaces \<open>null\<close> and \<open>undefined\<close> only.\<close>

fun nullish :: "jsval \<Rightarrow> jsnum \<Rightarrow> jsnum" where
  "nullish Undefined d = d"
| "nullish Null d = d"
| "nullish (Num x) d = x"


text \<open>
  \<open>s.toUpperCase()\<close> on the ASCII letters, which is all the identifiers and symbols of the
  upstream API use.
\<close>

definition upper_char :: "char \<Rightarrow> char" where
  "upper_char c =
     (if CHR ''a'' \<le> c \<and> c \<le> CHR ''z'' then char_of (of_char c - (32::nat)) else c)"

definition toUpperCase :: "string \<Rightarrow> string" where
  "toUpperCase s = map upper_char s"

text \<open>\<open>parts.join(sep)\<close>.\<close>

fun join :: "string \<Rightarrow> string list \<Rightarrow> string" where
  "join sep [] = []"
| "join sep [x] = x"
| "join sep (x # y # ys) = x @ sep @ join sep (y # ys)"

text \<open>
  \<open>new Map(entries)\<close>: the entries are set one after the other, so a later entry replaces
  an earlier one with the same key. \<open>byId.get(k)\<close> is the application of the map.
\<close>

definition new_Map :: "('k \<times> 'v) list \<Rightarrow> ('k \<rightharpoonup> 'v)" where
  "new_Map entries = foldl (\<lambda>m (k, v). m(k \<mapsto> v)) Map.empty entries"

text \<open>
  \<open>xs.sort(cmp)\<close>: the stable sort of a comparator; \<open>a\<close> moves behind \<open>b\<close> only when
  \<open>cmp(a, b) > 0\<close>, and a comparison that yields 0 or NaN keeps the original order.
\<close>

fun insert_by :: "('a \<Rightarrow> 'a \<Rightarrow> jsnum) \<Rightarrow> 'a \<Rightarrow> 'a list \<Rightarrow> 'a list" where
  "insert_by cmp x [] = [x]"
| "insert_by cmp x (y # ys) =
     (if js_less (Fin 0) (cmp x y) then y # insert_by cmp x ys else x # y # ys)"

definition Array_sort :: "('a \<Rightarrow> 'a \<Rightarrow> jsnum) \<Rightarrow> 'a list \<Rightarrow> 'a list" where
  "Array_sort cmp xs = foldr (insert_by cmp) xs []"

section \<open>api/market-overview.js\<close>

text \<open>The time to live of the cache, in milliseconds.\<close>

definition CACHE_TTL_MS :: int where
  "CACHE_TTL_MS = 5 * 60 * 1000"

subsection \<open>Numeric utilities\<close>

text \<open>The result \<open>null\<close> is \<open>None\<close>.\<close>

definition safeNumber :: "jsval \<Rightarrow> jsnum option" where
  "safeNumber n = (let x = Number n in if isFinite x then Some x else None)"

definition median :: "jsval list \<Rightarrow> jsnum option" where
  "median values =
     (let arr = Array_sort (\<lambda>a b. js_sub a b) (filter isFinite (map Number values)) in
      if length arr = 0 then None
      else let mid = length arr div 2 in
        if length arr mod 2 = 0 then Some (js_div (js_add (arr ! (mid - 1)) (arr ! mid)) (Fin 2))
        else Some (arr ! mid))"

subsection \<open>Snapshot of the three designated assets\<close>

record market_asset =
  market_id :: string
  market_name :: "string option"
  market_symbol :: "string option"
  current_price :: jsval
  price_change_percentage_24h_in_currency :: jsval
  price_change_percentage_7d_in_currency :: jsval
  price_change_percentage_30d_in_currency :: jsval
  market_cap :: jsval

record top3_entry =
  snap_id :: string
  snap_name :: "string option"
  snap_symbol :: "string option"
  priceUsd :: "jsnum option"
  change24hPct :: "jsnum option"
  change30dPct :: "jsnum option"
  marketCapUsd :: "jsnum option"

text \<open>The object literal built for an asset that was found.\<close>

definition top3_view :: "market_asset \<Rightarrow> top3_entry" where
  "top3_view c =
     \<lparr> snap_id = market_id c,
       snap_name = market_name c,
       snap_symbol = market_symbol c,
       priceUsd = safeNumber (current_price c),
       change24hPct = safeNumber (price_change_percentage_24h_in_currency c),
       change30dPct = safeNumber (price_change_percentage_30d_in_currency c),
       marketCapUsd = safeNumber (market_cap c) \<rparr>"

text \<open>The argument is \<open>None\<close> when the caller passes \<open>null\<close> or \<open>undefined\<close>.\<close>

definition computeTop3Snapshot :: "market_asset list option \<Rightarrow> top3_entry list" where
  "computeTop3Snapshot markets =
     (let ids = [''bitcoin'', ''ethereum'', ''solana''];
          byId = new_Map (map (\<lambda>c. (market_id c, c)) (case markets of None \<Rightarrow> [] | Some ms \<Rightarrow> ms))
      in [e. Some e \<leftarrow> map (\<lambda>id. case byId id of None \<Rightarrow> None | Some c \<Rightarrow> Some (top3_view c)) ids])"

subsection \<open>Mood\<close>

record global_data =
  data_market_cap_change_percentage_24h_usd :: jsval

record global_json =
  data :: "global_data option"
  market_cap_change_percentage_24h_usd :: jsval

record metrics =
  pctUp24h :: jsnum
  pctUp7d :: jsnum
  btc30d :: "jsnum option"
  medianAlt30d :: "jsnum option"
  leadershipGap30d :: "jsnum option"
  marketCapChange24hPct :: "jsnum option"

text \<open>
  \<open>score\<close> is \<open>None\<close> for \<open>null\<close>; \<open>metrics\<close> is \<open>None\<close> for the empty object. In
  \<open>computeMood\<close> the initial values \<open>uneasy\<close> and \<open>Uneasy\<close> of the state and the label are
  overwritten on every path of the threshold chain, whose last branch has no condition.
\<close>

record mood_result =
  state :: string
  label :: string
  score :: "jsnum option"
  metrics :: "metrics option"

definition computeMood :: "market_asset list option \<Rightarrow> global_json option \<Rightarrow> mood_result" where
  "computeMood markets globalJson =
     (let arr = (case markets of None \<Rightarrow> [] | Some ms \<Rightarrow> ms) in
      if length arr = 0 then
        \<lparr> state = ''unknown'', label = ''Unknown'', score = None, metrics = None \<rparr>
      else
        let up24h = length (filter (\<lambda>c. js_less (Fin 0)
                      (nullish (price_change_percentage_24h_in_currency c) (Fin (- 999)))) arr);
            up7d = length (filter (\<lambda>c. js_less (Fin 0)
                      (nullish (price_change_percentage_7d_in_currency c) (Fin (- 999)))) arr);
            pctUp24h = js_div (Fin (real up24h)) (Fin (real (length arr)));
            pctUp7d = js_div (Fin (real up7d)) (Fin (real (length arr)));
            btc = find (\<lambda>c. market_id c = ''bitcoin'') arr;
            btc30d = safeNumber (case btc of None \<Rightarrow> Undefined
                        | Some c \<Rightarrow> price_change_percentage_30d_in_currency c);
            alt30dValues = map price_change_percentage_30d_in_currency
                             (filter (\<lambda>c. market_id c \<noteq> ''bitcoin'') arr);
            medianAlt30d = median alt30dValues;
            leadershipGap30d =
              (case (btc30d, medianAlt30d) of (Some b, Some m) \<Rightarrow> Some (js_sub b m) | _ \<Rightarrow> None);
            mcapChange24h =
              (case safeNumber (case globalJson of None \<Rightarrow> Undefined | Some g \<Rightarrow>
                      (case data g of None \<Rightarrow> Undefined
                       | Some d \<Rightarrow> data_market_cap_change_percentage_24h_usd d)) of
                 Some x \<Rightarrow> Some x
               | None \<Rightarrow> safeNumber (case globalJson of None \<Rightarrow> Undefined
                            | Some g \<Rightarrow> market_cap_change_percentage_24h_usd g));
            score0 = Fin 50;
            score1 = js_add score0 (js_mul (js_sub pctUp24h (Fin 0.5)) (Fin 40));
            score2 = js_add score1 (js_mul (js_sub pctUp7d (Fin 0.5)) (Fin 40));
            score3 = (case leadershipGap30d of None \<Rightarrow> score2
                      | Some gap \<Rightarrow> js_sub score2 (js_mul (Math_max (Fin 0) gap) (Fin 0.5)));
            score4 = (case mcapChange24h of None \<Rightarrow> score3
                      | Some m \<Rightarrow> js_add score3 (js_mul m (Fin 1.5)));
            score = Math_max (Fin 0) (Math_min (Fin 100) (Math_round score4));
            (state, label) =
              (if js_le (Fin 75) score then (''snack-mode'', ''Snack Mode'')
               else if js_le (Fin 60) score then (''steady-bite'', ''Steady Bite'')
               else if js_le (Fin 45) score then (''side-eye'', ''Side-Eye'')
               else if js_le (Fin 30) score then (''clutching-cookies'', ''Clutching Cookies'')
               else (''crumbs-everywhere'', ''Crumbs Everywhere''))
        in \<lparr> state = state, label = label, score = Some score,
             metrics = Some \<lparr> pctUp24h = toFixed2 pctUp24h,
                              pctUp7d = toFixed2 pctUp7d,
                              btc30d = btc30d,
                              medianAlt30d = medianAlt30d,
                              leadershipGap30d = leadershipGap30d,
                              marketCapChange24hPct = mcapChange24h \<rparr> \<rparr>)"

subsection \<open>Neighbouring mood states\<close>

record adjacent_states =
  prev :: "string option"
  "next" :: "string option"

text \<open>\<open>states.indexOf(s)\<close>, with -1 when the state is not in the array.\<close>

fun indexOf :: "string list \<Rightarrow> string \<Rightarrow> int" where
  "indexOf [] s = - 1"
| "indexOf (x # xs) s =
     (if x = s then 0 else (let i = indexOf xs s in if i = - 1 then - 1 else i + 1))"

text \<open>\<open>states[i] ?? null\<close>: an index outside the array reads \<open>undefined\<close>.\<close>

definition at_or_null :: "string list \<Rightarrow> int \<Rightarrow> string option" where
  "at_or_null xs i = (if 0 \<le> i \<and> i < int (length xs) then Some (xs ! nat i) else None)"

definition computeAdjacentStates :: "string \<Rightarrow> adjacent_states" where
  "computeAdjacentStates s =
     (let states = [''crumbs-everywhere'', ''clutching-cookies'', ''side-eye'',
                    ''steady-bite'', ''snack-mode''];
          i = indexOf states s
      in if i = - 1 then \<lparr> prev = None, next = None \<rparr>
         else \<lparr> prev = at_or_null states (i - 1), next = at_or_null states (i + 1) \<rparr>)"

subsection \<open>Compact coin row\<close>

record coin_row =
  coin_id :: string
  coin_symbol :: string
  coin_name :: "string option"
  coin_priceUsd :: "jsnum option"
  chg24h :: "jsnum option"
  chg30d :: "jsnum option"

definition buildCoinsRowFromTop3 :: "top3_entry list option \<Rightarrow> coin_row list" where
  "buildCoinsRowFromTop3 top3Snapshot =
     map (\<lambda>c. \<lparr> coin_id = snap_id c,
                 coin_symbol = toUpperCase (case snap_symbol c of None \<Rightarrow> [] | Some s \<Rightarrow> s),
                 coin_name = snap_name c,
                 coin_priceUsd = priceUsd c,
                 chg24h = change24hPct c,
                 chg30d = change30dPct c \<rparr>)
         (case top3Snapshot of None \<Rightarrow> [] | Some xs \<Rightarrow> xs)"

subsection \<open>Orchestration\<close>

text \<open>
  The outcome of one \<open>fetch\<close>: the promise rejects, or it resolves to a response with its
  \<open>ok\<close> flag, its status and the value of \<open>json()\<close>, which is \<open>None\<close> when parsing throws.
\<close>

datatype 'a fetched = Rejected | Response bool nat "'a option"

datatype error = Error string | FetchRejected | JsonParseError

record trending_coin =
  item_id :: string

record trending_json =
  coins_of :: "trending_coin list option"

type_synonym converter_prices = "(string \<times> (string \<times> jsval) list) list"

text \<open>
  The upstream API as the orchestration sees it: one outcome for each of the three fixed
  requests, and one for the price request of each identifier list.
\<close>

record upstream =
  markets_request :: "market_asset list fetched"
  trending_request :: "trending_json fetched"
  global_request :: "global_json option fetched"
  simple_price_request :: "string \<Rightarrow> converter_prices fetched"

record mood = mood_result +
  adjacent :: adjacent_states
  ghostKey :: string

record payload =
  markets :: "market_asset list"
  trending :: "string list"
  global :: "global_json option"
  converterPrices :: converter_prices
  mood :: mood
  top3Snapshot :: "top3_entry list"
  coins :: "coin_row list"

text \<open>
  The second component counts the \<open>fetch\<close> calls issued: the first three are issued
  together, the fourth only once the first three have been read.
\<close>

definition fetchFromCoinGecko :: "upstream \<Rightarrow> (error + payload) \<times> nat" where
  "fetchFromCoinGecko up =
     (case markets_request up of Rejected \<Rightarrow> (Inl FetchRejected, 3)
      | Response marketsOk _ marketsBody \<Rightarrow>
     (case trending_request up of Rejected \<Rightarrow> (Inl FetchRejected, 3)
      | Response trendingOk _ trendingBody \<Rightarrow>
     (case global_request up of Rejected \<Rightarrow> (Inl FetchRejected, 3)
      | Response globalOk _ globalBody \<Rightarrow>
        if \<not> marketsOk then (Inl (Error ''markets request failed''), 3)
        else if \<not> trendingOk then (Inl (Error ''trending request failed''), 3)
        else if \<not> globalOk then (Inl (Error ''global request failed''), 3)
        else
     (case marketsBody of None \<Rightarrow> (Inl JsonParseError, 3) | Some markets' \<Rightarrow>
     (case trendingBody of None \<Rightarrow> (Inl JsonParseError, 3) | Some trendingJson \<Rightarrow>
     (case globalBody of None \<Rightarrow> (Inl JsonParseError, 3) | Some global' \<Rightarrow>
        let trending' = map item_id (case coins_of trendingJson of None \<Rightarrow> [] | Some cs \<Rightarrow> cs);
            top50Ids = join '','' (map market_id (take 50 markets'))
        in
     (case simple_price_request up top50Ids of Rejected \<Rightarrow> (Inl FetchRejected, 4)
      | Response simpleOk _ simpleBody \<Rightarrow>
        if \<not> simpleOk then (Inl (Error ''simple price request failed''), 4)
        else
     (case simpleBody of None \<Rightarrow> (Inl JsonParseError, 4) | Some converterPrices' \<Rightarrow>
        let top3Snapshot' = computeTop3Snapshot (Some markets');
            baseMood = computeMood (Some markets') global';
            adjacent' = computeAdjacentStates (state baseMood);
            mood' = mood_result.extend baseMood
                      (mood.fields adjacent' (state baseMood));
            coins' = buildCoinsRowFromTop3 (Some top3Snapshot')
        in (Inr \<lparr> markets = markets', trending = trending', global = global',
                   converterPrices = converterPrices', mood = mood',
                   top3Snapshot = top3Snapshot', coins = coins' \<rparr>, 4)))))))))"

subsection \<open>Request handler and cache\<close>

record cache =
  ts :: int
  cache_data :: "payload option"

record response_body = payload +
  source :: string

datatype body = End | Json response_body | Json_error string

record response =
  headers :: "(string \<times> string) list"
  status :: nat
  body :: body

text \<open>
  One request: the method, the value of \<open>Date.now()\<close>, the upstream outcomes and the
  cache slot go in; the response, the cache slot afterwards and the number of \<open>fetch\<close>
  calls issued come out.
\<close>

definition handler :: "string \<Rightarrow> int \<Rightarrow> upstream \<Rightarrow> cache \<Rightarrow> response \<times> cache \<times> nat" where
  "handler method now up cache =
     (let hs = [(''Access-Control-Allow-Origin'', ''*''),
                (''Access-Control-Allow-Methods'', ''GET,OPTIONS''),
                (''Access-Control-Allow-Headers'', ''Content-Type'')]
      in if method = ''OPTIONS'' then (\<lparr> headers = hs, status = 200, body = End \<rparr>, cache, 0)
      else
        (case (if now - ts cache < CACHE_TTL_MS then cache_data cache else None) of
           Some cached \<Rightarrow>
             (\<lparr> headers = hs, status = 200,
                body = Json (payload.extend cached (response_body.fields ''cache'')) \<rparr>, cache, 0)
         | None \<Rightarrow>
             (case fetchFromCoinGecko up of
                (Inr data', calls) \<Rightarrow>
                  (\<lparr> headers = hs, status = 200,
                     body = Json (payload.extend data' (response_body.fields ''live'')) \<rparr>,
                   \<lparr> ts = now, cache_data = Some data' \<rparr>, calls)
              | (Inl err, calls) \<Rightarrow>
                  (case cache_data cache of
                     Some stale \<Rightarrow>
                       (\<lparr> headers = hs, status = 200,
                          body = Json (payload.extend stale (response_body.fields ''stale-cache'')) \<rparr>,
                        cache, calls)
                   | None \<Rightarrow>
                       (\<lparr> headers = hs, status = 500,
                          body = Json_error ''Failed to load market data'' \<rparr>, cache, calls)))))"

section \<open>api/coin-tickers.js\<close>

record ticker_market =
  market_name_of :: "string option"

record converted =
  usd :: jsval

record ticker =
  target :: "string option"
  base :: "string option"
  market :: "ticker_market option"
  converted_last :: "converted option"
  converted_volume :: "converted option"


record ticker_row =
  exchange :: string
  pair :: string
  price :: jsnum
  volume :: jsnum





datatype tickers_body =
    Tickers string "ticker_row list" string
  | CoinGecko_error string nat
  | Failed string



section \<open>Reference definitions for the statements\<close>







subsection \<open>Concrete inputs\<close>

definition example_asset :: "string \<Rightarrow> jsval \<Rightarrow> jsval \<Rightarrow> jsval \<Rightarrow> jsval \<Rightarrow> market_asset" where
  "example_asset i p c24 c7 c30 =
     \<lparr> market_id = i, market_name = Some i, market_symbol = Some ''sym'', current_price = p,
       price_change_percentage_24h_in_currency = c24,
       price_change_percentage_7d_in_currency = c7,
       price_change_percentage_30d_in_currency = c30,
       market_cap = Num PosInf \<rparr>"


definition example_global :: "global_json option" where
  "example_global =
     Some \<lparr> data = Some \<lparr> data_market_cap_change_percentage_24h_usd = Num (Fin 1) \<rparr>,
            market_cap_change_percentage_24h_usd = Undefined \<rparr>"

definition example_payload :: payload where
  "example_payload =
     \<lparr> markets = [], trending = [''pepe''], global = None, converterPrices = [],
       mood = mood_result.extend (computeMood None None)
                (mood.fields (computeAdjacentStates ''unknown'') ''unknown''),
       top3Snapshot = [], coins = [] \<rparr>"


definition example_failing_upstream :: upstream where
  "example_failing_upstream =
     \<lparr> markets_request = Response False 429 None,
       trending_request = Response True 200 (Some \<lparr> coins_of = None \<rparr>),
       global_request = Response True 200 (Some example_global),
       simple_price_request = (\<lambda>ids. Rejected) \<rparr>"





section \<open>Numbers: coercion, sorting, rounding\<close>

lemma safeNumber_cases: "safeNumber v = None \<or> (\<exists>r. safeNumber v = Some (Fin r))"
  by (cases "Number v") (simp_all add: safeNumber_def)









section \<open>The mood score\<close>










text \<open>
  C4. For the empty asset list (and for an absent one) \<open>computeMood\<close> returns the state
  \<open>unknown\<close>, the label \<open>Unknown\<close>, a null score and empty metrics, whatever the
  global-stats input is.
\<close>

theorem computeMood_empty:
  "computeMood (Some []) g =
     \<lparr> state = ''unknown'', label = ''Unknown'', score = None, metrics = None \<rparr>
   \<and> computeMood None g =
     \<lparr> state = ''unknown'', label = ''Unknown'', score = None, metrics = None \<rparr>"
  by (simp add: computeMood_def)

section \<open>The median\<close>



section \<open>The snapshot of the three designated assets\<close>

lemma new_Map_snoc: "new_Map (xs @ [(k, v)]) = (new_Map xs)(k \<mapsto> v)"
  by (simp add: new_Map_def)

text \<open>A lookup in the map built from a list finds the last element with the key.\<close>

lemma new_Map_last:
  "new_Map (map (\<lambda>c. (f c, c)) ms) k =
     (if k \<in> f ` set ms then Some (last (filter (\<lambda>c. f c = k) ms)) else None)"
proof (induction ms rule: rev_induct)
  case Nil
  show ?case by (simp add: new_Map_def)
next
  case (snoc x xs)
  have "new_Map (map (\<lambda>c. (f c, c)) (xs @ [x])) = (new_Map (map (\<lambda>c. (f c, c)) xs))(f x \<mapsto> x)"
    using new_Map_snoc[of "map (\<lambda>c. (f c, c)) xs" "f x" x] by simp
  then show ?case using snoc.IH by auto
qed

lemma computeTop3Snapshot_eq:
  "computeTop3Snapshot (Some ms) =
     map (\<lambda>i. top3_view (last (filter (\<lambda>c. market_id c = i) ms)))
       (filter (\<lambda>i. i \<in> market_id ` set ms) [''bitcoin'', ''ethereum'', ''solana''])"
  by (simp add: computeTop3Snapshot_def new_Map_last)

lemma computeTop3Snapshot_None: "computeTop3Snapshot None = []"
  by (simp add: computeTop3Snapshot_def new_Map_def)

lemma last_match_id:
  assumes "i \<in> market_id ` set ms"
  shows "market_id (last (filter (\<lambda>c. market_id c = i) ms)) = i"
proof -
  from assms have "filter (\<lambda>c. market_id c = i) ms \<noteq> []"
    by (auto simp: filter_empty_conv)
  then have "last (filter (\<lambda>c. market_id c = i) ms) \<in> set (filter (\<lambda>c. market_id c = i) ms)"
    by (rule last_in_set)
  then show ?thesis by simp
qed

text \<open>
  C6. For every asset list \<open>computeTop3Snapshot\<close> returns at most three entries, each with
  an identifier among bitcoin, ethereum and solana, in that relative order, an identifier
  absent from the list being left out. Among duplicate entries for one identifier the
  code projects the last one, not the first: the map built from the list keeps the latest
  entry of a key. The first theorem shows it on two bitcoin entries; the second states what
  the code does.
\<close>

theorem computeTop3Snapshot_duplicate_counterexample:
  "computeTop3Snapshot
     (Some [example_asset ''bitcoin'' (Num (Fin 1)) Null Null Null,
            example_asset ''bitcoin'' (Num (Fin 2)) Null Null Null])
     = [top3_view (example_asset ''bitcoin'' (Num (Fin 2)) Null Null Null)]
   \<and> top3_view (example_asset ''bitcoin'' (Num (Fin 2)) Null Null Null)
       \<noteq> top3_view (example_asset ''bitcoin'' (Num (Fin 1)) Null Null Null)"
  by (simp add: computeTop3Snapshot_def new_Map_def example_asset_def top3_view_def safeNumber_def)

text \<open>
  C6, as the code has it: the snapshot is the view of the last matching asset for each of
  bitcoin, ethereum and solana that occurs in the list, in this order; its length is at
  most three.
\<close>

theorem computeTop3Snapshot_last_match:
  "computeTop3Snapshot (Some ms) =
     map (\<lambda>i. top3_view (last (filter (\<lambda>c. market_id c = i) ms)))
       (filter (\<lambda>i. i \<in> market_id ` set ms) [''bitcoin'', ''ethereum'', ''solana''])
   \<and> map snap_id (computeTop3Snapshot (Some ms)) =
       filter (\<lambda>i. i \<in> market_id ` set ms) [''bitcoin'', ''ethereum'', ''solana'']
   \<and> length (computeTop3Snapshot (Some ms)) \<le> 3
   \<and> set (map snap_id (computeTop3Snapshot (Some ms))) \<subseteq> {''bitcoin'', ''ethereum'', ''solana''}
   \<and> subseq (map snap_id (computeTop3Snapshot (Some ms))) [''bitcoin'', ''ethereum'', ''solana'']
   \<and> computeTop3Snapshot None = []"
proof -
  have ids: "map snap_id (computeTop3Snapshot (Some ms)) =
       filter (\<lambda>i. i \<in> market_id ` set ms) [''bitcoin'', ''ethereum'', ''solana'']"
    unfolding computeTop3Snapshot_eq by (simp add: top3_view_def last_match_id)
  have len: "length (computeTop3Snapshot (Some ms)) \<le> 3"
    unfolding computeTop3Snapshot_eq by simp
  have sub: "subseq (map snap_id (computeTop3Snapshot (Some ms))) [''bitcoin'', ''ethereum'', ''solana'']"
    unfolding ids by (rule subseq_filter_left)
  have mem: "set (map snap_id (computeTop3Snapshot (Some ms))) \<subseteq> {''bitcoin'', ''ethereum'', ''solana''}"
    unfolding ids by auto
  show ?thesis using computeTop3Snapshot_eq[of ms] ids len sub mem computeTop3Snapshot_None by blast
qed

text \<open>
  C10. Every entry of the snapshot is the view of an asset of the list, and each of its
  numeric fields (\<open>priceUsd\<close>, \<open>change24hPct\<close>, \<open>change30dPct\<close>, \<open>marketCapUsd\<close>) is
  null or a finite number, never NaN or an infinity: each is \<open>safeNumber\<close> of the upstream
  field, and \<open>safeNumber\<close> is null exactly when the coercion is not finite.
\<close>

theorem computeTop3Snapshot_finite_or_null:
  assumes "e \<in> set (computeTop3Snapshot markets')"
  shows "(priceUsd e = None \<or> (\<exists>r. priceUsd e = Some (Fin r)))
       \<and> (change24hPct e = None \<or> (\<exists>r. change24hPct e = Some (Fin r)))
       \<and> (change30dPct e = None \<or> (\<exists>r. change30dPct e = Some (Fin r)))
       \<and> (marketCapUsd e = None \<or> (\<exists>r. marketCapUsd e = Some (Fin r)))
       \<and> (\<exists>c. e = top3_view c \<and> priceUsd e = safeNumber (current_price c)
              \<and> change24hPct e = safeNumber (price_change_percentage_24h_in_currency c)
              \<and> change30dPct e = safeNumber (price_change_percentage_30d_in_currency c)
              \<and> marketCapUsd e = safeNumber (market_cap c))
       \<and> (safeNumber v = None) = (\<not> isFinite (Number v))"
proof -
  obtain c where c: "e = top3_view c"
  proof (cases markets')
    case None
    with assms show ?thesis by (simp add: computeTop3Snapshot_None)
  next
    case (Some ms)
    with assms that show ?thesis by (auto simp: computeTop3Snapshot_eq)
  qed
  have n: "(safeNumber v = None) = (\<not> isFinite (Number v))"
    by (simp add: safeNumber_def Let_def)
  show ?thesis
    using safeNumber_cases[of "current_price c"]
      safeNumber_cases[of "price_change_percentage_24h_in_currency c"]
      safeNumber_cases[of "price_change_percentage_30d_in_currency c"]
      safeNumber_cases[of "market_cap c"] n
    unfolding c by (auto simp add: top3_view_def)
qed

theorem computeTop3Snapshot_finite_or_null_witness:
  "top3_view (example_asset ''bitcoin'' (Num (Fin 1)) Null Null Undefined)
     \<in> set (computeTop3Snapshot (Some [example_asset ''bitcoin'' (Num (Fin 1)) Null Null Undefined]))
   \<and> priceUsd (top3_view (example_asset ''bitcoin'' (Num (Fin 1)) Null Null Undefined)) = Some (Fin 1)
   \<and> change24hPct (top3_view (example_asset ''bitcoin'' (Num (Fin 1)) Null Null Undefined)) = Some (Fin 0)
   \<and> change30dPct (top3_view (example_asset ''bitcoin'' (Num (Fin 1)) Null Null Undefined)) = None
   \<and> marketCapUsd (top3_view (example_asset ''bitcoin'' (Num (Fin 1)) Null Null Undefined)) = None"
proof -
  let ?c = "example_asset ''bitcoin'' (Num (Fin 1)) Null Null Undefined"
  have m: "top3_view ?c \<in> set (computeTop3Snapshot (Some [?c]))"
    by (simp add: computeTop3Snapshot_def new_Map_def example_asset_def)
  have v: "priceUsd (top3_view ?c) = Some (Fin 1)" "change24hPct (top3_view ?c) = Some (Fin 0)"
    "change30dPct (top3_view ?c) = None" "marketCapUsd (top3_view ?c) = None"
    by (simp_all add: top3_view_def example_asset_def safeNumber_def)
  from computeTop3Snapshot_finite_or_null[OF m] m v show ?thesis by simp
qed

section \<open>Neighbouring mood states\<close>

text \<open>
  C7. \<open>computeAdjacentStates\<close> is total over the fixed sequence crumbs-everywhere,
  clutching-cookies, side-eye, steady-bite, snack-mode: each state of the sequence gets its
  neighbours as \<open>prev\<close> and \<open>next\<close>, with null at either boundary, so that each boundary
  state has exactly one null side; the \<open>next\<close> of the \<open>prev\<close> of an interior state is the
  state itself; any other input gets null on both sides.
\<close>

theorem computeAdjacentStates_sequence:
  "computeAdjacentStates ''crumbs-everywhere'' = \<lparr> prev = None, next = Some ''clutching-cookies'' \<rparr>
   \<and> computeAdjacentStates ''clutching-cookies'' =
         \<lparr> prev = Some ''crumbs-everywhere'', next = Some ''side-eye'' \<rparr>
   \<and> computeAdjacentStates ''side-eye'' =
         \<lparr> prev = Some ''clutching-cookies'', next = Some ''steady-bite'' \<rparr>
   \<and> computeAdjacentStates ''steady-bite'' = \<lparr> prev = Some ''side-eye'', next = Some ''snack-mode'' \<rparr>
   \<and> computeAdjacentStates ''snack-mode'' = \<lparr> prev = Some ''steady-bite'', next = None \<rparr>
   \<and> (s \<notin> set [''crumbs-everywhere'', ''clutching-cookies'', ''side-eye'', ''steady-bite'',
                  ''snack-mode'']
        \<longrightarrow> computeAdjacentStates s = \<lparr> prev = None, next = None \<rparr>)
   \<and> (i \<in> set [''clutching-cookies'', ''side-eye'', ''steady-bite'']
        \<longrightarrow> (\<exists>p. prev (computeAdjacentStates i) = Some p \<and> next (computeAdjacentStates p) = Some i))"
  by (auto simp add: computeAdjacentStates_def at_or_null_def)

theorem computeAdjacentStates_sequence_witness:
  "''unknown'' \<notin> set [''crumbs-everywhere'', ''clutching-cookies'', ''side-eye'', ''steady-bite'',
                       ''snack-mode'']
   \<and> computeAdjacentStates ''unknown'' = \<lparr> prev = None, next = None \<rparr>
   \<and> ''side-eye'' \<in> set [''clutching-cookies'', ''side-eye'', ''steady-bite'']
   \<and> prev (computeAdjacentStates ''side-eye'') = Some ''clutching-cookies''
   \<and> next (computeAdjacentStates ''clutching-cookies'') = Some ''side-eye''"
  using computeAdjacentStates_sequence[of "''unknown''" "''side-eye''"]
  by (simp add: computeAdjacentStates_def at_or_null_def)


section \<open>State and label of the mood\<close>







section \<open>The request handler and its cache\<close>

lemma tagged_payload:
  "payload.truncate (payload.extend d (response_body.fields tag)) = d
   \<and> source (payload.extend d (response_body.fields tag)) = tag"
  by (cases d) (simp add: payload.defs response_body.defs)

text \<open>
  C3. When the cache slot holds data and the current time minus the cached timestamp is
  strictly below the TTL of five minutes, a request other than OPTIONS is answered 200 with
  the cached payload tagged \<open>source: "cache"\<close>, no upstream fetch is issued, and the cache
  slot stays as it is.
\<close>

theorem handler_fresh_cache:
  assumes "method \<noteq> ''OPTIONS''"
      and "cache_data cache = Some d"
      and "now - ts cache < CACHE_TTL_MS"
  shows "\<exists>r b. handler method now up cache = (r, cache, 0)
           \<and> status r = 200 \<and> body r = Json b
           \<and> payload.truncate b = d \<and> source b = ''cache''
           \<and> CACHE_TTL_MS = 300000"
  using assms by (simp add: handler_def tagged_payload CACHE_TTL_MS_def)

theorem handler_fresh_cache_witness:
  "''GET'' \<noteq> ''OPTIONS''
   \<and> cache_data \<lparr> ts = 0, cache_data = Some example_payload \<rparr> = Some example_payload
   \<and> 60000 - ts \<lparr> ts = 0, cache_data = Some example_payload \<rparr> < CACHE_TTL_MS
   \<and> (\<exists>r b. handler ''GET'' 60000 example_failing_upstream \<lparr> ts = 0, cache_data = Some example_payload \<rparr>
               = (r, \<lparr> ts = 0, cache_data = Some example_payload \<rparr>, 0)
           \<and> status r = 200 \<and> body r = Json b
           \<and> payload.truncate b = example_payload \<and> source b = ''cache'')"
  using handler_fresh_cache[of "''GET''" "\<lparr> ts = 0, cache_data = Some example_payload \<rparr>"
          example_payload 60000 example_failing_upstream]
  by (simp add: CACHE_TTL_MS_def)

text \<open>
  C2. When the orchestration fails and a previously cached payload exists, of whatever
  age, the handler answers 200 with that payload, only \<open>source\<close> being set, to
  \<open>"stale-cache"\<close>, and leaves the cache slot as it is; when the orchestration fails and no
  cached data exists, the handler answers 500 with the error \<open>Failed to load market data\<close>.
  The orchestration runs when the request is not OPTIONS and the slot is empty or not
  fresh.
\<close>

theorem handler_orchestration_failure:
  assumes "method \<noteq> ''OPTIONS''"
      and "fetchFromCoinGecko up = (Inl err, calls)"
      and "cache_data cache = None \<or> CACHE_TTL_MS \<le> now - ts cache"
  shows "\<exists>r. handler method now up cache = (r, cache, calls)
           \<and> (case cache_data cache of
                 Some d \<Rightarrow> status r = 200
                            \<and> (\<exists>b. body r = Json b \<and> payload.truncate b = d
                                     \<and> source b = ''stale-cache'')
               | None \<Rightarrow> status r = 500 \<and> body r = Json_error ''Failed to load market data'')"
  using assms
  by (cases "cache_data cache") (auto simp add: handler_def tagged_payload)

lemma example_failure:
  "fetchFromCoinGecko example_failing_upstream = (Inl (Error ''markets request failed''), 3)"
  by (simp add: fetchFromCoinGecko_def example_failing_upstream_def)

theorem handler_orchestration_failure_witness:
  "''GET'' \<noteq> ''OPTIONS''
   \<and> fetchFromCoinGecko example_failing_upstream = (Inl (Error ''markets request failed''), 3)
   \<and> CACHE_TTL_MS \<le> 86400000 - ts \<lparr> ts = 0, cache_data = Some example_payload \<rparr>
   \<and> (\<exists>r b. handler ''GET'' 86400000 example_failing_upstream \<lparr> ts = 0, cache_data = Some example_payload \<rparr>
               = (r, \<lparr> ts = 0, cache_data = Some example_payload \<rparr>, 3)
           \<and> status r = 200 \<and> body r = Json b
           \<and> payload.truncate b = example_payload \<and> source b = ''stale-cache'')
   \<and> cache_data \<lparr> ts = 0, cache_data = None \<rparr> = None
   \<and> (\<exists>r. handler ''GET'' 86400000 example_failing_upstream \<lparr> ts = 0, cache_data = None \<rparr>
               = (r, \<lparr> ts = 0, cache_data = None \<rparr>, 3)
           \<and> status r = 500 \<and> body r = Json_error ''Failed to load market data'')"
  using handler_orchestration_failure[of "''GET''" example_failing_upstream
          "Error ''markets request failed''" 3 "\<lparr> ts = 0, cache_data = Some example_payload \<rparr>"
          86400000]
        handler_orchestration_failure[of "''GET''" example_failing_upstream
          "Error ''markets request failed''" 3 "\<lparr> ts = 0, cache_data = None \<rparr>"
          86400000]
        example_failure
  by (simp add: CACHE_TTL_MS_def)

section \<open>The ticker endpoint\<close>



















end
